theory Spec2Isabelle
  imports Main
begin

section \<open>The retrying JSON-RPC client of PeercoinRPC.ts\<close>

text \<open>
  The model follows \<^verbatim>\<open>src/src/PeercoinRPC.ts\<close>. Everything the class imports from
  other modules (\<^verbatim>\<open>jsonRpcCmd\<close>, \<^verbatim>\<open>PURE_METHODS\<close>, \<^verbatim>\<open>getWasExecutedFromError\<close>,
  \<^verbatim>\<open>getShouldRetry\<close>, \<^verbatim>\<open>iotsDecode\<close>) is a parameter: a field of the record
  \<open>collaborators\<close>. A rejected promise is the left injection of a sum, a resolved one the
  right injection. The calls to \<^verbatim>\<open>debug\<close> only log and are left out.

  Assumed of the collaborators: the promise of the transport always settles, and
  \<^verbatim>\<open>getWasExecutedFromError\<close>, \<^verbatim>\<open>getShouldRetry\<close> and the reading of
  \<^verbatim>\<open>error.message\<close> return without throwing.
\<close>

subsection \<open>Values, effects and the imported collaborators\<close>

text \<open>The values that the modelled operations put into a parameter list (\<^verbatim>\<open>any[]\<close>).\<close>

datatype jsvalue = JUndefined | JBool bool | JString string

text \<open>
  The observable effects of the client, in the order they happen: a request handed to the
  transport (url, method, parameter list) and a call of \<^verbatim>\<open>delay\<close> (milliseconds). The
  state threaded through every operation is the list of effects so far.
\<close>

datatype event = Request string string "jsvalue list" | Delay nat

text \<open>
  The transport answers a request as a function of everything that happened before it, so
  any sequence of answers can be described. \<^verbatim>\<open>getWasExecutedFromError\<close> returns
  \<^verbatim>\<open>true\<close>, \<^verbatim>\<open>false\<close> or something else (\<open>None\<close>).
\<close>

record ('e, 'r, 'dec, 'd, 'a) collaborators =
  jsonRpcCmd :: "event list \<Rightarrow> string \<Rightarrow> string \<Rightarrow> jsvalue list \<Rightarrow> 'e + 'r"
  PURE_METHODS :: "string list"
  getWasExecutedFromError :: "string \<Rightarrow> 'e \<Rightarrow> bool option"
  getShouldRetry :: "string \<Rightarrow> 'e \<Rightarrow> bool"
  iotsDecode :: "'dec \<Rightarrow> 'r \<Rightarrow> 'd + 'a"

record CreatePeercoinRPCOptions =
  ancient :: "bool option"

record PeercoinRPC =
  url :: string
  options :: CreatePeercoinRPCOptions

definition MAX_ATTEMPTS :: nat where
  "MAX_ATTEMPTS = 5"

definition DELAY_BETWEEN_ATTEMPTS :: nat where
  "DELAY_BETWEEN_ATTEMPTS = 5000"

text \<open>The object built by \<^verbatim>\<open>getErrrorData\<close> (under its key \<^verbatim>\<open>PeercoinRPC\<close>).\<close>

record errorData =
  err_method :: string
  err_params :: "jsvalue list"
  err_methodIsPure :: bool
  err_maxAttempts :: nat
  err_attempts :: nat

text \<open>
  What an operation can throw: \<^verbatim>\<open>new PeercoinRPCError(error, executed, data)\<close>, or the
  error of the decoder after \<^verbatim>\<open>Object.assign(error, { executed: true })\<close>, kept with the
  value of its \<^verbatim>\<open>executed\<close> property.
\<close>

datatype ('e, 'd) thrown =
  PeercoinRPCError 'e "bool option" errorData
| DecodingError 'd bool

subsection \<open>cmd and cmdWithRetry\<close>

definition delay :: "nat \<Rightarrow> event list \<Rightarrow> event list" where
  "delay ms s = s @ [Delay ms]"

definition cmd ::
  "('e, 'r, 'dec, 'd, 'a) collaborators \<Rightarrow> PeercoinRPC \<Rightarrow> string \<Rightarrow> jsvalue list \<Rightarrow> event list
     \<Rightarrow> ('e + 'r) \<times> event list" where
  "cmd E self method params s =
     (jsonRpcCmd E s (url self) method params, s @ [Request (url self) method params])"

definition getErrrorData :: "string \<Rightarrow> jsvalue list \<Rightarrow> bool \<Rightarrow> nat \<Rightarrow> nat \<Rightarrow> errorData" where
  "getErrrorData method params methodIsPure maxAttempts attemptN =
     \<lparr>err_method = method, err_params = params, err_methodIsPure = methodIsPure,
      err_maxAttempts = maxAttempts, err_attempts = attemptN\<rparr>"

text \<open>
  The closure \<^verbatim>\<open>attempt\<close>: the variables it captures (\<^verbatim>\<open>method\<close>, \<^verbatim>\<open>params\<close>,
  \<^verbatim>\<open>methodIsPure\<close>, \<^verbatim>\<open>maxAttempts\<close>) are arguments. The source compares
  \<^verbatim>\<open>attemptN === maxAttempts\<close>, so a call that starts above the bound could recurse for
  ever: the function is partial, and \<open>None\<close> stands for not returning.
\<close>

partial_function (option) attempt ::
  "('e, 'r, 'dec, 'd, 'a) collaborators \<Rightarrow> PeercoinRPC \<Rightarrow> string \<Rightarrow> jsvalue list \<Rightarrow> bool \<Rightarrow> nat
     \<Rightarrow> nat \<Rightarrow> event list \<Rightarrow> ((('e, 'd) thrown + 'r) \<times> event list) option" where
  "attempt E self method params methodIsPure maxAttempts attemptN s =
     (case cmd E self method params s of
        (Inr result, s1) \<Rightarrow> Some (Inr result, s1)
      | (Inl error, s1) \<Rightarrow>
          (let executed = getWasExecutedFromError E method error;
               hadEffects = (\<not> methodIsPure \<and> executed \<noteq> Some False);
               shouldRetry = (\<not> hadEffects \<and> getShouldRetry E method error)
           in if attemptN = maxAttempts then
                Some (Inl (PeercoinRPCError error executed
                        (getErrrorData method params methodIsPure maxAttempts attemptN)), s1)
              else if shouldRetry then
                attempt E self method params methodIsPure maxAttempts (attemptN + 1)
                  (delay DELAY_BETWEEN_ATTEMPTS s1)
              else
                Some (Inl (PeercoinRPCError error executed
                        (getErrrorData method params methodIsPure maxAttempts attemptN)), s1)))"

declare attempt.simps [code]

definition cmdWithRetry ::
  "('e, 'r, 'dec, 'd, 'a) collaborators \<Rightarrow> PeercoinRPC \<Rightarrow> string \<Rightarrow> jsvalue list \<Rightarrow> event list
     \<Rightarrow> ((('e, 'd) thrown + 'r) \<times> event list) option" where
  "cmdWithRetry E self method params s =
     (let methodIsPure = (method \<in> set (PURE_METHODS E));
          maxAttempts = MAX_ATTEMPTS
      in attempt E self method params methodIsPure maxAttempts 1 s)"

subsection \<open>cmdWithRetryAndDecode\<close>

definition cmdWithRetryAndDecode ::
  "('e, 'r, 'dec, 'd, 'a) collaborators \<Rightarrow> PeercoinRPC \<Rightarrow> 'dec \<Rightarrow> string \<Rightarrow> jsvalue list
     \<Rightarrow> event list \<Rightarrow> ((('e, 'd) thrown + 'a) \<times> event list) option" where
  "cmdWithRetryAndDecode E self decoder method params s =
     (case cmdWithRetry E self method params s of
        None \<Rightarrow> None
      | Some (Inl err, s1) \<Rightarrow> Some (Inl err, s1)
      | Some (Inr result, s1) \<Rightarrow>
          (case iotsDecode E decoder result of
             Inr decoded \<Rightarrow> Some (Inr decoded, s1)
           | Inl error \<Rightarrow> Some (Inl (DecodingError error True), s1)))"

subsection \<open>The operations of the client\<close>

text \<open>The decoders of the module \<^verbatim>\<open>decoders\<close> that the modelled operations name.\<close>

datatype decoder =
  SendRawTransactionResultDecoder
| SendToAddressResultDecoder
| GetInfoResultDecoder
| GetBlockchainInfoResultDecoder
| GetBalanceResultDecoder
| AncientGetInfoResultDecoder

text \<open>\<^verbatim>\<open>a ?? b\<close> on an optional argument, and the truthiness of an optional string.\<close>

definition nullish :: "'a option \<Rightarrow> 'a \<Rightarrow> 'a" where
  "nullish a b = (case a of None \<Rightarrow> b | Some v \<Rightarrow> v)"

definition truthy :: "string option \<Rightarrow> bool" where
  "truthy a = (case a of None \<Rightarrow> False | Some v \<Rightarrow> v \<noteq> [])"

definition jsString :: "string option \<Rightarrow> jsvalue" where
  "jsString a = (case a of None \<Rightarrow> JUndefined | Some v \<Rightarrow> JString v)"

definition jsBool :: "bool option \<Rightarrow> jsvalue" where
  "jsBool a = (case a of None \<Rightarrow> JUndefined | Some v \<Rightarrow> JBool v)"

definition sendRawTransaction ::
  "('e, 'r, decoder, 'd, 'a) collaborators \<Rightarrow> PeercoinRPC \<Rightarrow> string \<Rightarrow> event list
     \<Rightarrow> ((('e, 'd) thrown + 'a) \<times> event list) option" where
  "sendRawTransaction E self hex s =
     cmdWithRetryAndDecode E self SendRawTransactionResultDecoder ''sendrawtransaction''
       [JString hex] s"

definition sendToAddress ::
  "('e, 'r, decoder, 'd, 'a) collaborators \<Rightarrow> PeercoinRPC \<Rightarrow> string \<Rightarrow> string \<Rightarrow> string option
     \<Rightarrow> string option \<Rightarrow> bool option \<Rightarrow> bool option \<Rightarrow> event list
     \<Rightarrow> ((('e, 'd) thrown + 'a) \<times> event list) option" where
  "sendToAddress E self address amount comment commentTo subtractFeeFromAmount replaceable s =
     (let params = [JString address, JString amount];
          params =
            (if replaceable \<noteq> None then
               params @ [JString (nullish comment ''''), JString (nullish commentTo ''''),
                         JBool (nullish subtractFeeFromAmount False), jsBool replaceable]
             else if subtractFeeFromAmount \<noteq> None then
               params @ [JString (nullish comment ''''), JString (nullish commentTo ''''),
                         jsBool subtractFeeFromAmount]
             else if commentTo \<noteq> None then
               params @ [JString (nullish comment ''''), jsString commentTo]
             else if truthy commentTo then
               params @ [jsString comment]
             else params)
      in cmdWithRetryAndDecode E self SendToAddressResultDecoder ''sendtoaddress'' params s)"

definition getInfo ::
  "('e, 'r, decoder, 'd, 'a) collaborators \<Rightarrow> PeercoinRPC \<Rightarrow> event list
     \<Rightarrow> ((('e, 'd) thrown + 'a) \<times> event list) option" where
  "getInfo E self s = cmdWithRetryAndDecode E self GetInfoResultDecoder ''getinfo'' [] s"

definition getBlockchainInfo ::
  "('e, 'r, decoder, 'd, 'a) collaborators \<Rightarrow> PeercoinRPC \<Rightarrow> event list
     \<Rightarrow> ((('e, 'd) thrown + 'a) \<times> event list) option" where
  "getBlockchainInfo E self s =
     cmdWithRetryAndDecode E self GetBlockchainInfoResultDecoder ''getblockchaininfo'' [] s"

definition getBalance ::
  "('e, 'r, decoder, 'd, 'a) collaborators \<Rightarrow> PeercoinRPC \<Rightarrow> event list
     \<Rightarrow> ((('e, 'd) thrown + 'a) \<times> event list) option" where
  "getBalance E self s = cmdWithRetryAndDecode E self GetBalanceResultDecoder ''getbalance'' [] s"

definition ancientGetInfo ::
  "('e, 'r, decoder, 'd, 'a) collaborators \<Rightarrow> PeercoinRPC \<Rightarrow> event list
     \<Rightarrow> ((('e, 'd) thrown + 'a) \<times> event list) option" where
  "ancientGetInfo E self s =
     cmdWithRetryAndDecode E self AncientGetInfoResultDecoder ''getinfo'' [] s"

text \<open>
  \<^verbatim>\<open>isReady\<close>: the whole body is inside \<^verbatim>\<open>try\<close>; whatever the awaited call throws is
  caught and answered with \<^verbatim>\<open>false\<close>.
\<close>

definition isReady ::
  "('e, 'r, decoder, 'd, 'a) collaborators \<Rightarrow> PeercoinRPC \<Rightarrow> event list
     \<Rightarrow> ((('e, 'd) thrown + bool) \<times> event list) option" where
  "isReady E self s =
     (case (if ancient (options self) = Some True then ancientGetInfo E self s
            else getBlockchainInfo E self s) of
        None \<Rightarrow> None
      | Some (Inr v, s1) \<Rightarrow> Some (Inr True, s1)
      | Some (Inl error, s1) \<Rightarrow> Some (Inr False, s1))"

subsection \<open>Counting effects\<close>

fun isRequest :: "event \<Rightarrow> bool" where
  "isRequest (Request u m ps) = True"
| "isRequest (Delay ms) = False"

fun isDelay :: "event \<Rightarrow> bool" where
  "isDelay (Request u m ps) = False"
| "isDelay (Delay ms) = True"

definition transportAttempts :: "event list \<Rightarrow> nat" where
  "transportAttempts t = length (filter isRequest t)"

definition delays :: "event list \<Rightarrow> nat" where
  "delays t = length (filter isDelay t)"

subsection \<open>Test inputs\<close>

text \<open>
  Concrete collaborators on which the theorems below are instantiated: a client, a
  transport that answers the \<open>n\<close>-th request with the \<open>n\<close>-th entry of a script (and
  refuses the connection once the script is used up), a classifier, two retry policies
  and a decoder over strings.
\<close>

definition exampleClient :: PeercoinRPC where
  "exampleClient = \<lparr>url = ''http://127.0.0.1:9902'', options = \<lparr>ancient = None\<rparr>\<rparr>"

definition ancientClient :: PeercoinRPC where
  "ancientClient = \<lparr>url = ''http://127.0.0.1:9902'', options = \<lparr>ancient = Some True\<rparr>\<rparr>"

definition scripted ::
  "(string + string) list \<Rightarrow> event list \<Rightarrow> string \<Rightarrow> string \<Rightarrow> jsvalue list \<Rightarrow> string + string" where
  "scripted answers s u m ps =
     (case drop (transportAttempts s) answers of [] \<Rightarrow> Inl ''ECONNREFUSED'' | a # rest \<Rightarrow> a)"

definition exampleClassifier :: "string \<Rightarrow> string \<Rightarrow> bool option" where
  "exampleClassifier m e =
     (if e = ''ECONNREFUSED'' \<or> e = ''ETIMEDOUT'' then Some False
      else if e = ''transaction already in block chain'' then Some True
      else None)"

definition retryTransient :: "string \<Rightarrow> string \<Rightarrow> bool" where
  "retryTransient m e = (e = ''ECONNREFUSED'' \<or> e = ''ETIMEDOUT'')"

definition retryAlways :: "string \<Rightarrow> string \<Rightarrow> bool" where
  "retryAlways m e = True"

definition exampleDecode :: "decoder \<Rightarrow> string \<Rightarrow> string + string" where
  "exampleDecode dec r = (if r = ''garbage'' then Inl ''Invalid value'' else Inr r)"

definition exampleNode ::
  "(string + string) list \<Rightarrow> (string \<Rightarrow> string \<Rightarrow> bool)
     \<Rightarrow> (string, string, decoder, string, string) collaborators" where
  "exampleNode answers policy =
     \<lparr>jsonRpcCmd = scripted answers,
      PURE_METHODS = [''getbalance'', ''getblockchaininfo'', ''getinfo''],
      getWasExecutedFromError = exampleClassifier,
      getShouldRetry = policy,
      iotsDecode = exampleDecode\<rparr>"

section \<open>One attempt\<close>

text \<open>The three ways an attempt can go, each read off the body of \<^verbatim>\<open>attempt\<close>.\<close>

lemma attempt_success:
  "jsonRpcCmd E s (url self) method params = Inr result \<Longrightarrow>
   attempt E self method params methodIsPure maxAttempts attemptN s =
     Some (Inr result, s @ [Request (url self) method params])"
  by (subst attempt.simps) (simp add: cmd_def)

lemma attempt_throw:
  "jsonRpcCmd E s (url self) method params = Inl error \<Longrightarrow>
   attemptN = maxAttempts \<or>
     \<not> ((methodIsPure \<or> getWasExecutedFromError E method error = Some False)
        \<and> getShouldRetry E method error) \<Longrightarrow>
   attempt E self method params methodIsPure maxAttempts attemptN s =
     Some (Inl (PeercoinRPCError error (getWasExecutedFromError E method error)
             (getErrrorData method params methodIsPure maxAttempts attemptN)),
           s @ [Request (url self) method params])"
  by (subst attempt.simps) (auto simp add: cmd_def Let_def)

lemma attempt_retry:
  "jsonRpcCmd E s (url self) method params = Inl error \<Longrightarrow>
   attemptN \<noteq> maxAttempts \<Longrightarrow>
   methodIsPure \<or> getWasExecutedFromError E method error = Some False \<Longrightarrow>
   getShouldRetry E method error \<Longrightarrow>
   attempt E self method params methodIsPure maxAttempts attemptN s =
     attempt E self method params methodIsPure maxAttempts (attemptN + 1)
       (s @ [Request (url self) method params, Delay DELAY_BETWEEN_ATTEMPTS])"
  by (subst attempt.simps) (auto simp add: cmd_def Let_def delay_def)

section \<open>A whole run\<close>

text \<open>
  Started at or below the bound, \<^verbatim>\<open>attempt\<close> returns. It has then made \<open>k\<close> failed
  requests, each followed by one delay, and a last request; the last request either
  succeeded, or failed at the bound or with an error that may not be retried.
\<close>

lemma attempt_run:
  assumes "attemptN \<le> maxAttempts"
  shows "\<exists>res k. attempt E self method params methodIsPure maxAttempts attemptN s =
           Some (res, s @ concat (replicate k [Request (url self) method params,
                                              Delay DELAY_BETWEEN_ATTEMPTS])
                        @ [Request (url self) method params])
         \<and> attemptN + k \<le> maxAttempts
         \<and> (case res of
              Inr result \<Rightarrow>
                jsonRpcCmd E (s @ concat (replicate k [Request (url self) method params,
                     Delay DELAY_BETWEEN_ATTEMPTS])) (url self) method params = Inr result
            | Inl x \<Rightarrow>
                (\<exists>error. jsonRpcCmd E (s @ concat (replicate k [Request (url self) method params,
                     Delay DELAY_BETWEEN_ATTEMPTS])) (url self) method params = Inl error
                  \<and> x = PeercoinRPCError error (getWasExecutedFromError E method error)
                          (getErrrorData method params methodIsPure maxAttempts (attemptN + k))
                  \<and> (attemptN + k = maxAttempts \<or>
                       \<not> ((methodIsPure \<or> getWasExecutedFromError E method error = Some False)
                          \<and> getShouldRetry E method error))))"
  using assms
proof (induction "maxAttempts - attemptN" arbitrary: attemptN s)
  case 0
  then have top: "attemptN = maxAttempts" by simp
  show ?case
  proof (cases "jsonRpcCmd E s (url self) method params")
    case (Inr result)
    from attempt_success [OF Inr] show ?thesis
      by (intro exI [of _ "Inr result"] exI [of _ 0]) (simp add: Inr top)
  next
    case (Inl error)
    from attempt_throw [OF Inl] top show ?thesis
      by (intro exI [of _ "Inl (PeercoinRPCError error (getWasExecutedFromError E method error)
             (getErrrorData method params methodIsPure maxAttempts attemptN))"] exI [of _ 0])
         (simp add: Inl)
  qed
next
  case (Suc d)
  then have below: "attemptN \<noteq> maxAttempts" "attemptN + 1 \<le> maxAttempts"
    "d = maxAttempts - (attemptN + 1)" by simp_all
  show ?case
  proof (cases "jsonRpcCmd E s (url self) method params")
    case (Inr result)
    from attempt_success [OF Inr] show ?thesis
      using Suc.prems by (intro exI [of _ "Inr result"] exI [of _ 0]) (simp add: Inr)
  next
    case (Inl error)
    show ?thesis
    proof (cases "(methodIsPure \<or> getWasExecutedFromError E method error = Some False)
        \<and> getShouldRetry E method error")
      case False
      with attempt_throw [OF Inl, of attemptN maxAttempts methodIsPure] show ?thesis
        using Suc.prems
        by (intro exI [of _ "Inl (PeercoinRPCError error (getWasExecutedFromError E method error)
             (getErrrorData method params methodIsPure maxAttempts attemptN))"] exI [of _ 0])
           (simp add: Inl)
    next
      case True
      then have step: "attempt E self method params methodIsPure maxAttempts attemptN s =
          attempt E self method params methodIsPure maxAttempts (attemptN + 1)
            (s @ [Request (url self) method params, Delay DELAY_BETWEEN_ATTEMPTS])"
        using attempt_retry [OF Inl below(1)] by simp
      from Suc.hyps(1) [OF below(3) below(2),
          of "s @ [Request (url self) method params, Delay DELAY_BETWEEN_ATTEMPTS]"]
      show ?thesis
        unfolding step
        by (elim exE conjE, rule_tac x = res in exI, rule_tac x = "Suc k" in exI)
           (simp split: sum.splits)
    qed
  qed
qed

lemma transportAttempts_run:
  "transportAttempts (concat (replicate k [Request u m ps, Delay ms]) @ [Request u m ps]) = Suc k"
  by (induction k) (simp_all add: transportAttempts_def)

lemma transportAttempts_retries:
  "transportAttempts (concat (replicate k [Request u m ps, Delay ms])) = k"
  by (induction k) (simp_all add: transportAttempts_def)

lemma delays_run:
  "delays (concat (replicate k [Request u m ps, Delay ms]) @ [Request u m ps]) = k"
  by (induction k) (simp_all add: delays_def)

text \<open>\<^verbatim>\<open>cmdWithRetry\<close> starts at attempt 1, below the bound of 5: it always returns.\<close>

lemma cmdWithRetry_run:
  "\<exists>res k. cmdWithRetry E self method params s =
           Some (res, s @ concat (replicate k [Request (url self) method params,
                                              Delay DELAY_BETWEEN_ATTEMPTS])
                        @ [Request (url self) method params])
         \<and> Suc k \<le> MAX_ATTEMPTS
         \<and> (case res of
              Inr result \<Rightarrow>
                jsonRpcCmd E (s @ concat (replicate k [Request (url self) method params,
                     Delay DELAY_BETWEEN_ATTEMPTS])) (url self) method params = Inr result
            | Inl x \<Rightarrow>
                (\<exists>error. jsonRpcCmd E (s @ concat (replicate k [Request (url self) method params,
                     Delay DELAY_BETWEEN_ATTEMPTS])) (url self) method params = Inl error
                  \<and> x = PeercoinRPCError error (getWasExecutedFromError E method error)
                          (getErrrorData method params (method \<in> set (PURE_METHODS E))
                             MAX_ATTEMPTS (Suc k))
                  \<and> (Suc k = MAX_ATTEMPTS \<or>
                       \<not> ((method \<in> set (PURE_METHODS E)
                            \<or> getWasExecutedFromError E method error = Some False)
                          \<and> getShouldRetry E method error))))"
proof -
  have "(1::nat) \<le> MAX_ATTEMPTS" by (simp add: MAX_ATTEMPTS_def)
  from attempt_run [OF this, of E self "method" "params" "method \<in> set (PURE_METHODS E)" s]
  show ?thesis by (simp add: cmdWithRetry_def cong: sum.case_cong)
qed

text \<open>The decoding step neither adds an effect nor loses the run.\<close>

lemma cmdWithRetryAndDecode_trace:
  "cmdWithRetry E self method params s = Some (res, s1) \<Longrightarrow>
   \<exists>res'. cmdWithRetryAndDecode E self decoder method params s = Some (res', s1)
     \<and> (isl res \<longrightarrow> res' = Inl (projl res))
     \<and> (\<not> isl res \<longrightarrow> res' = (case iotsDecode E decoder (projr res) of
            Inr decoded \<Rightarrow> Inr decoded | Inl error \<Rightarrow> Inl (DecodingError error True)))"
  by (cases res) (simp_all add: cmdWithRetryAndDecode_def split: sum.splits)

text \<open>
  When every error the transport can give at the histories of a run is classified
  \<^verbatim>\<open>false\<close>, the purity flag has no influence on the effects of the run.
\<close>

lemma attempt_purity_irrelevant:
  assumes "attemptN \<le> maxAttempts"
    and "\<forall>k error. attemptN + k \<le> maxAttempts \<longrightarrow>
           jsonRpcCmd E (s @ concat (replicate k [Request (url self) method params,
                Delay DELAY_BETWEEN_ATTEMPTS])) (url self) method params = Inl error \<longrightarrow>
           getWasExecutedFromError E method error = Some False"
  shows "map_option snd (attempt E self method params False maxAttempts attemptN s) =
         map_option snd (attempt E self method params True maxAttempts attemptN s)"
  using assms
proof (induction "maxAttempts - attemptN" arbitrary: attemptN s)
  case 0
  then have top: "attemptN = maxAttempts" by simp
  show ?case
  proof (cases "jsonRpcCmd E s (url self) method params")
    case (Inr result)
    then show ?thesis by (simp add: attempt_success)
  next
    case (Inl error)
    then show ?thesis using top by (simp add: attempt_throw)
  qed
next
  case (Suc d)
  then have below: "attemptN \<noteq> maxAttempts" "attemptN + 1 \<le> maxAttempts"
    "d = maxAttempts - (attemptN + 1)" by simp_all
  show ?case
  proof (cases "jsonRpcCmd E s (url self) method params")
    case (Inr result)
    then show ?thesis by (simp add: attempt_success)
  next
    case (Inl error)
    from Suc.prems(2) [rule_format, of 0 error] Inl Suc.prems(1)
    have notExecuted: "getWasExecutedFromError E method error = Some False" by simp
    show ?thesis
    proof (cases "getShouldRetry E method error")
      case False
      then show ?thesis using Inl by (simp add: attempt_throw)
    next
      case True
      let ?s = "s @ [Request (url self) method params, Delay DELAY_BETWEEN_ATTEMPTS]"
      have later: "\<forall>k error. attemptN + 1 + k \<le> maxAttempts \<longrightarrow>
           jsonRpcCmd E (?s @ concat (replicate k [Request (url self) method params,
                Delay DELAY_BETWEEN_ATTEMPTS])) (url self) method params = Inl error \<longrightarrow>
           getWasExecutedFromError E method error = Some False"
      proof (intro allI impI)
        fix k error
        assume "attemptN + 1 + k \<le> maxAttempts"
          and "jsonRpcCmd E (?s @ concat (replicate k [Request (url self) method params,
                Delay DELAY_BETWEEN_ATTEMPTS])) (url self) method params = Inl error"
        with Suc.prems(2) [rule_format, of "Suc k" error]
        show "getWasExecutedFromError E method error = Some False" by simp
      qed
      have "attempt E self method params b maxAttempts attemptN s =
          attempt E self method params b maxAttempts (attemptN + 1) ?s" for b
        using attempt_retry [OF Inl below(1), of b] notExecuted True by simp
      with Suc.hyps(1) [OF below(3) below(2) later] show ?thesis by simp
    qed
  qed
qed

text \<open>
  The same run, with its history: each of the \<open>k\<close> requests before the last one failed
  with an error that permits a retry, and the last request is the one whose outcome the
  run reports.
\<close>

lemma attempt_run_history:
  assumes "attemptN \<le> maxAttempts"
  shows "\<exists>res k. attempt E self method params methodIsPure maxAttempts attemptN s =
           Some (res, s @ concat (replicate k [Request (url self) method params,
                                              Delay DELAY_BETWEEN_ATTEMPTS])
                        @ [Request (url self) method params])
         \<and> attemptN + k \<le> maxAttempts
         \<and> (\<forall>j<k. \<exists>error.
               jsonRpcCmd E (s @ concat (replicate j [Request (url self) method params,
                    Delay DELAY_BETWEEN_ATTEMPTS])) (url self) method params = Inl error
               \<and> (methodIsPure \<or> getWasExecutedFromError E method error = Some False)
               \<and> getShouldRetry E method error)
         \<and> (\<forall>result. res = Inr result \<longrightarrow>
               jsonRpcCmd E (s @ concat (replicate k [Request (url self) method params,
                    Delay DELAY_BETWEEN_ATTEMPTS])) (url self) method params = Inr result)
         \<and> (\<forall>x. res = Inl x \<longrightarrow>
               (\<exists>error. jsonRpcCmd E (s @ concat (replicate k [Request (url self) method params,
                     Delay DELAY_BETWEEN_ATTEMPTS])) (url self) method params = Inl error
                  \<and> x = PeercoinRPCError error (getWasExecutedFromError E method error)
                          (getErrrorData method params methodIsPure maxAttempts (attemptN + k))
                  \<and> (attemptN + k = maxAttempts \<or>
                       \<not> ((methodIsPure \<or> getWasExecutedFromError E method error = Some False)
                          \<and> getShouldRetry E method error))))"
  using assms
proof (induction "maxAttempts - attemptN" arbitrary: attemptN s)
  case 0
  then have top: "attemptN = maxAttempts" by simp
  show ?case
  proof (cases "jsonRpcCmd E s (url self) method params")
    case (Inr result)
    from attempt_success [OF Inr] show ?thesis
      by (intro exI [of _ "Inr result"] exI [of _ 0]) (simp add: Inr top)
  next
    case (Inl error)
    from attempt_throw [OF Inl] top show ?thesis
      by (intro exI [of _ "Inl (PeercoinRPCError error (getWasExecutedFromError E method error)
             (getErrrorData method params methodIsPure maxAttempts attemptN))"] exI [of _ 0])
         (simp add: Inl)
  qed
next
  case (Suc d)
  then have below: "attemptN \<noteq> maxAttempts" "attemptN + 1 \<le> maxAttempts"
    "d = maxAttempts - (attemptN + 1)" by simp_all
  show ?case
  proof (cases "jsonRpcCmd E s (url self) method params")
    case (Inr result)
    from attempt_success [OF Inr] show ?thesis
      using Suc.prems by (intro exI [of _ "Inr result"] exI [of _ 0]) (simp add: Inr)
  next
    case (Inl error)
    show ?thesis
    proof (cases "(methodIsPure \<or> getWasExecutedFromError E method error = Some False)
        \<and> getShouldRetry E method error")
      case False
      with attempt_throw [OF Inl, of attemptN maxAttempts methodIsPure] show ?thesis
        using Suc.prems
        by (intro exI [of _ "Inl (PeercoinRPCError error (getWasExecutedFromError E method error)
             (getErrrorData method params methodIsPure maxAttempts attemptN))"] exI [of _ 0])
           (simp add: Inl)
    next
      case True
      then have step: "attempt E self method params methodIsPure maxAttempts attemptN s =
          attempt E self method params methodIsPure maxAttempts (attemptN + 1)
            (s @ [Request (url self) method params, Delay DELAY_BETWEEN_ATTEMPTS])"
        using attempt_retry [OF Inl below(1)] by simp
      from Suc.hyps(1) [OF below(3) below(2),
          of "s @ [Request (url self) method params, Delay DELAY_BETWEEN_ATTEMPTS]"]
      show ?thesis
        unfolding step using Inl True
        by (elim exE conjE, rule_tac x = res in exI, rule_tac x = "Suc k" in exI)
           (simp add: All_less_Suc2)
    qed
  qed
qed

section \<open>The bound on transport attempts\<close>

text \<open>
  C1. One invocation performs at most \<open>maxAttempts\<close> (5) transport attempts: every run
  of \<^verbatim>\<open>cmdWithRetry\<close>, and of an operation built on \<^verbatim>\<open>cmdWithRetryAndDecode\<close>,
  returns, and the effects it adds contain at most \<open>MAX_ATTEMPTS = 5\<close> requests. An
  attempt numbered \<open>maxAttempts\<close> that fails ends the run with a \<^verbatim>\<open>PeercoinRPCError\<close>
  right after its one request, whatever the classifier and the retry policy say: it does
  not recurse.
\<close>

theorem C1_at_most_maxAttempts:
  "(\<exists>res t. cmdWithRetry E self method params s = Some (res, s @ t)
       \<and> transportAttempts t \<le> MAX_ATTEMPTS)
   \<and> (\<exists>res t. cmdWithRetryAndDecode E self decoder method params s = Some (res, s @ t)
       \<and> transportAttempts t \<le> MAX_ATTEMPTS)
   \<and> MAX_ATTEMPTS = 5
   \<and> (\<forall>h error. jsonRpcCmd E h (url self) method params = Inl error \<longrightarrow>
        attempt E self method params (method \<in> set (PURE_METHODS E)) MAX_ATTEMPTS MAX_ATTEMPTS h =
          Some (Inl (PeercoinRPCError error (getWasExecutedFromError E method error)
                  (getErrrorData method params (method \<in> set (PURE_METHODS E))
                     MAX_ATTEMPTS MAX_ATTEMPTS)),
                h @ [Request (url self) method params]))"
proof -
  obtain res k where run:
    "cmdWithRetry E self method params s =
       Some (res, s @ concat (replicate k [Request (url self) method params,
                                          Delay DELAY_BETWEEN_ATTEMPTS])
                    @ [Request (url self) method params])"
    and bound: "Suc k \<le> MAX_ATTEMPTS"
    using cmdWithRetry_run [of E self "method" "params" s] by blast
  let ?t = "concat (replicate k [Request (url self) method params,
                                 Delay DELAY_BETWEEN_ATTEMPTS])
              @ [Request (url self) method params]"
  have count: "transportAttempts ?t \<le> MAX_ATTEMPTS"
    using bound by (simp only: transportAttempts_run)
  have first: "\<exists>res t. cmdWithRetry E self method params s = Some (res, s @ t)
       \<and> transportAttempts t \<le> MAX_ATTEMPTS"
    using run count by blast
  obtain res' where "cmdWithRetryAndDecode E self decoder method params s = Some (res', s @ ?t)"
    using cmdWithRetryAndDecode_trace [OF run] by blast
  then have second: "\<exists>res t. cmdWithRetryAndDecode E self decoder method params s =
      Some (res, s @ t) \<and> transportAttempts t \<le> MAX_ATTEMPTS"
    using count by blast
  have third: "\<forall>h error. jsonRpcCmd E h (url self) method params = Inl error \<longrightarrow>
        attempt E self method params (method \<in> set (PURE_METHODS E)) MAX_ATTEMPTS MAX_ATTEMPTS h =
          Some (Inl (PeercoinRPCError error (getWasExecutedFromError E method error)
                  (getErrrorData method params (method \<in> set (PURE_METHODS E))
                     MAX_ATTEMPTS MAX_ATTEMPTS)),
                h @ [Request (url self) method params])"
    by (simp add: attempt_throw)
  show ?thesis
    using first second third by (simp add: MAX_ATTEMPTS_def)
qed

theorem C1_at_most_maxAttempts_witness:
  "jsonRpcCmd (exampleNode [] retryTransient) [] (url exampleClient) ''getbalance'' []
     = Inl ''ECONNREFUSED''
   \<and> attempt (exampleNode [] retryTransient) exampleClient ''getbalance'' [] True 5 5 [] =
       Some (Inl (PeercoinRPCError ''ECONNREFUSED'' (Some False)
               \<lparr>err_method = ''getbalance'', err_params = [], err_methodIsPure = True,
                err_maxAttempts = 5, err_attempts = 5\<rparr>),
             [Request ''http://127.0.0.1:9902'' ''getbalance'' []])
   \<and> (\<exists>res t. cmdWithRetry (exampleNode [] retryTransient) exampleClient ''getbalance'' [] []
         = Some (res, t) \<and> transportAttempts t \<le> 5)"
proof -
  have refused: "jsonRpcCmd (exampleNode [] retryTransient) [] (url exampleClient)
      ''getbalance'' [] = Inl ''ECONNREFUSED''"
    by (simp add: exampleNode_def scripted_def)
  from C1_at_most_maxAttempts [of "exampleNode [] retryTransient" exampleClient
      "''getbalance''" "[]" "[]" GetBalanceResultDecoder] refused
  show ?thesis
    by (simp add: exampleNode_def exampleClient_def exampleClassifier_def getErrrorData_def)
qed

section \<open>The delay between attempts\<close>

text \<open>
  C9. The effects of one run are: some number \<open>k < maxAttempts\<close> of failed requests, each
  followed by one delay of 5000 ms, and then the last request. So each attempt after the
  first is preceded by exactly one delay, every delay has the same length whatever the
  attempt number, no delay precedes the first request, and none follows the last one,
  be it a success or the terminal failure. (The model records the argument handed to
  \<^verbatim>\<open>delay\<close>, not elapsed time.)
\<close>

theorem C9_constant_delay:
  "\<exists>res k. cmdWithRetry E self method params s =
       Some (res, s @ concat (replicate k [Request (url self) method params, Delay 5000])
                    @ [Request (url self) method params])
     \<and> k < MAX_ATTEMPTS
     \<and> delays (concat (replicate k [Request (url self) method params, Delay 5000])
                @ [Request (url self) method params]) = k
     \<and> DELAY_BETWEEN_ATTEMPTS = 5000"
proof -
  obtain res k where run:
    "cmdWithRetry E self method params s =
       Some (res, s @ concat (replicate k [Request (url self) method params,
                                          Delay DELAY_BETWEEN_ATTEMPTS])
                    @ [Request (url self) method params])"
    and bound: "Suc k \<le> MAX_ATTEMPTS"
    using cmdWithRetry_run [of E self "method" "params" s] by blast
  have "k < MAX_ATTEMPTS" using bound by simp
  then show ?thesis
    using run by (auto simp only: DELAY_BETWEEN_ATTEMPTS_def delays_run)
qed

section \<open>What the terminal error carries\<close>

text \<open>
  C7. When \<^verbatim>\<open>cmdWithRetry\<close> fails, the last effect is the request of the last attempt,
  and the \<^verbatim>\<open>PeercoinRPCError\<close> thrown wraps the error of that request, the value
  \<^verbatim>\<open>getWasExecutedFromError\<close> computes from that error, and the data: method name,
  parameter list, purity flag, maximum number of attempts, and the number of attempts
  made, which is the number of requests of this run.
\<close>

theorem C7_terminal_error_contents:
  assumes "cmdWithRetry E self method params s = Some (Inl x, s1)"
  shows "\<exists>h error. s1 = h @ [Request (url self) method params]
     \<and> jsonRpcCmd E h (url self) method params = Inl error
     \<and> x = PeercoinRPCError error (getWasExecutedFromError E method error)
           \<lparr>err_method = method, err_params = params,
            err_methodIsPure = (method \<in> set (PURE_METHODS E)),
            err_maxAttempts = 5,
            err_attempts = transportAttempts (drop (length s) s1)\<rparr>"
proof -
  obtain res k where run:
    "cmdWithRetry E self method params s =
       Some (res, s @ concat (replicate k [Request (url self) method params,
                                          Delay DELAY_BETWEEN_ATTEMPTS])
                    @ [Request (url self) method params])"
    and last: "case res of
              Inr result \<Rightarrow>
                jsonRpcCmd E (s @ concat (replicate k [Request (url self) method params,
                     Delay DELAY_BETWEEN_ATTEMPTS])) (url self) method params = Inr result
            | Inl x \<Rightarrow>
                (\<exists>error. jsonRpcCmd E (s @ concat (replicate k [Request (url self) method params,
                     Delay DELAY_BETWEEN_ATTEMPTS])) (url self) method params = Inl error
                  \<and> x = PeercoinRPCError error (getWasExecutedFromError E method error)
                          (getErrrorData method params (method \<in> set (PURE_METHODS E))
                             MAX_ATTEMPTS (Suc k))
                  \<and> (Suc k = MAX_ATTEMPTS \<or>
                       \<not> ((method \<in> set (PURE_METHODS E)
                            \<or> getWasExecutedFromError E method error = Some False)
                          \<and> getShouldRetry E method error)))"
    using cmdWithRetry_run [of E self "method" "params" s] by blast
  let ?h = "s @ concat (replicate k [Request (url self) method params,
                                     Delay DELAY_BETWEEN_ATTEMPTS])"
  from run assms have res: "res = Inl x" and s1: "s1 = ?h @ [Request (url self) method params]"
    by simp_all
  from last res obtain error where
    failed: "jsonRpcCmd E ?h (url self) method params = Inl error"
    and x: "x = PeercoinRPCError error (getWasExecutedFromError E method error)
              (getErrrorData method params (method \<in> set (PURE_METHODS E)) MAX_ATTEMPTS (Suc k))"
    by auto
  have "drop (length s) s1
      = concat (replicate k [Request (url self) method params, Delay DELAY_BETWEEN_ATTEMPTS])
          @ [Request (url self) method params]"
    by (simp add: s1)
  then have "transportAttempts (drop (length s) s1) = Suc k"
    by (simp only: transportAttempts_run)
  with x have "x = PeercoinRPCError error (getWasExecutedFromError E method error)
           \<lparr>err_method = method, err_params = params,
            err_methodIsPure = (method \<in> set (PURE_METHODS E)),
            err_maxAttempts = 5,
            err_attempts = transportAttempts (drop (length s) s1)\<rparr>"
    by (simp add: getErrrorData_def MAX_ATTEMPTS_def)
  with s1 failed show ?thesis by blast
qed

theorem C7_terminal_error_contents_witness:
  "cmdWithRetry (exampleNode [Inl ''transaction already in block chain''] retryTransient)
       exampleClient ''sendrawtransaction'' [JString ''0100''] []
     = Some (Inl (PeercoinRPCError ''transaction already in block chain'' (Some True)
               \<lparr>err_method = ''sendrawtransaction'', err_params = [JString ''0100''],
                err_methodIsPure = False, err_maxAttempts = 5, err_attempts = 1\<rparr>),
             [Request ''http://127.0.0.1:9902'' ''sendrawtransaction'' [JString ''0100'']])
   \<and> (\<exists>h error. [Request ''http://127.0.0.1:9902'' ''sendrawtransaction'' [JString ''0100'']]
          = h @ [Request (url exampleClient) ''sendrawtransaction'' [JString ''0100'']]
        \<and> jsonRpcCmd (exampleNode [Inl ''transaction already in block chain''] retryTransient)
            h (url exampleClient) ''sendrawtransaction'' [JString ''0100''] = Inl error
        \<and> getWasExecutedFromError
            (exampleNode [Inl ''transaction already in block chain''] retryTransient)
            ''sendrawtransaction'' error = Some True)"
proof -
  let ?E = "exampleNode [Inl ''transaction already in block chain''] retryTransient"
  have failed: "jsonRpcCmd ?E [] (url exampleClient) ''sendrawtransaction'' [JString ''0100'']
      = Inl ''transaction already in block chain''"
    by (simp add: exampleNode_def scripted_def transportAttempts_def)
  have run: "cmdWithRetry ?E exampleClient ''sendrawtransaction'' [JString ''0100''] []
     = Some (Inl (PeercoinRPCError ''transaction already in block chain'' (Some True)
               \<lparr>err_method = ''sendrawtransaction'', err_params = [JString ''0100''],
                err_methodIsPure = False, err_maxAttempts = 5, err_attempts = 1\<rparr>),
             [Request ''http://127.0.0.1:9902'' ''sendrawtransaction'' [JString ''0100'']])"
    unfolding cmdWithRetry_def Let_def
    by (subst attempt_throw [OF failed])
       (simp_all add: exampleNode_def exampleClassifier_def retryTransient_def
          getErrrorData_def MAX_ATTEMPTS_def exampleClient_def)
  from C7_terminal_error_contents [OF run] run show ?thesis
    by (auto simp add: exampleNode_def exampleClassifier_def)
qed

section \<open>Failures that are not retried\<close>

text \<open>
  C2. As stated (no further attempt after a failure classified as executed, for every
  method, pure or not) the claim fails: \<^verbatim>\<open>hadEffects\<close> is
  \<^verbatim>\<open>!methodIsPure && executed !== false\<close>, so for a pure method the classification is
  not consulted. What holds: an attempt that fails with an error classified \<^verbatim>\<open>true\<close>
  ends the run at once with a \<^verbatim>\<open>PeercoinRPCError\<close> when the method is not pure (and
  also when \<^verbatim>\<open>getShouldRetry\<close> returns \<^verbatim>\<open>false\<close> or the attempt is the
  \<open>maxAttempts\<close>-th); for a pure method with an error that \<^verbatim>\<open>getShouldRetry\<close> accepts,
  below the bound, the run goes on with a delay and the next attempt.
\<close>

theorem C2_executed_not_retried_unless_pure:
  assumes "jsonRpcCmd E s (url self) method params = Inl error"
    and "getWasExecutedFromError E method error = Some True"
  shows "(method \<notin> set (PURE_METHODS E) \<or> \<not> getShouldRetry E method error
            \<or> attemptN = MAX_ATTEMPTS \<longrightarrow>
          attempt E self method params (method \<in> set (PURE_METHODS E)) MAX_ATTEMPTS attemptN s =
            Some (Inl (PeercoinRPCError error (Some True)
                    (getErrrorData method params (method \<in> set (PURE_METHODS E))
                       MAX_ATTEMPTS attemptN)),
                  s @ [Request (url self) method params]))
       \<and> (method \<in> set (PURE_METHODS E) \<and> getShouldRetry E method error
            \<and> attemptN \<noteq> MAX_ATTEMPTS \<longrightarrow>
          attempt E self method params (method \<in> set (PURE_METHODS E)) MAX_ATTEMPTS attemptN s =
            attempt E self method params (method \<in> set (PURE_METHODS E)) MAX_ATTEMPTS
              (attemptN + 1)
              (s @ [Request (url self) method params, Delay DELAY_BETWEEN_ATTEMPTS]))"
proof (intro conjI impI)
  assume "method \<notin> set (PURE_METHODS E) \<or> \<not> getShouldRetry E method error
            \<or> attemptN = MAX_ATTEMPTS"
  then have "attemptN = MAX_ATTEMPTS \<or>
     \<not> ((method \<in> set (PURE_METHODS E) \<or> getWasExecutedFromError E method error = Some False)
        \<and> getShouldRetry E method error)"
    using assms(2) by auto
  from attempt_throw [OF assms(1) this]
  show "attempt E self method params (method \<in> set (PURE_METHODS E)) MAX_ATTEMPTS attemptN s =
            Some (Inl (PeercoinRPCError error (Some True)
                    (getErrrorData method params (method \<in> set (PURE_METHODS E))
                       MAX_ATTEMPTS attemptN)),
                  s @ [Request (url self) method params])"
    by (simp add: assms(2))
next
  assume "method \<in> set (PURE_METHODS E) \<and> getShouldRetry E method error
            \<and> attemptN \<noteq> MAX_ATTEMPTS"
  then show "attempt E self method params (method \<in> set (PURE_METHODS E)) MAX_ATTEMPTS
        attemptN s =
      attempt E self method params (method \<in> set (PURE_METHODS E)) MAX_ATTEMPTS
        (attemptN + 1)
        (s @ [Request (url self) method params, Delay DELAY_BETWEEN_ATTEMPTS])"
    using attempt_retry [OF assms(1), of attemptN MAX_ATTEMPTS "method \<in> set (PURE_METHODS E)"]
    by simp
qed

theorem C2_executed_not_retried_unless_pure_witness:
  "jsonRpcCmd (exampleNode [Inl ''transaction already in block chain''] retryAlways) []
       (url exampleClient) ''sendrawtransaction'' [JString ''0100'']
     = Inl ''transaction already in block chain''
   \<and> getWasExecutedFromError (exampleNode [Inl ''transaction already in block chain''] retryAlways)
       ''sendrawtransaction'' ''transaction already in block chain'' = Some True
   \<and> ''sendrawtransaction''
       \<notin> set (PURE_METHODS (exampleNode [Inl ''transaction already in block chain''] retryAlways))
   \<and> attempt (exampleNode [Inl ''transaction already in block chain''] retryAlways) exampleClient
       ''sendrawtransaction'' [JString ''0100''] False 5 1 [] =
       Some (Inl (PeercoinRPCError ''transaction already in block chain'' (Some True)
               \<lparr>err_method = ''sendrawtransaction'', err_params = [JString ''0100''],
                err_methodIsPure = False, err_maxAttempts = 5, err_attempts = 1\<rparr>),
             [Request ''http://127.0.0.1:9902'' ''sendrawtransaction'' [JString ''0100'']])
   \<and> ''getbalance''
       \<in> set (PURE_METHODS (exampleNode [Inl ''transaction already in block chain''] retryAlways))
   \<and> getShouldRetry (exampleNode [Inl ''transaction already in block chain''] retryAlways)
       ''getbalance'' ''transaction already in block chain''
   \<and> attempt (exampleNode [Inl ''transaction already in block chain''] retryAlways) exampleClient
       ''getbalance'' [] True 5 1 [] =
     attempt (exampleNode [Inl ''transaction already in block chain''] retryAlways) exampleClient
       ''getbalance'' [] True 5 2
       [Request ''http://127.0.0.1:9902'' ''getbalance'' [], Delay 5000]"
proof -
  let ?E = "exampleNode [Inl ''transaction already in block chain''] retryAlways"
  have failed: "jsonRpcCmd ?E [] (url exampleClient) m ps
      = Inl ''transaction already in block chain''" for m ps
    by (simp add: exampleNode_def scripted_def transportAttempts_def)
  have executed: "getWasExecutedFromError ?E m ''transaction already in block chain'' = Some True"
    for m
    by (simp add: exampleNode_def exampleClassifier_def)
  have purity: "''sendrawtransaction'' \<notin> set (PURE_METHODS ?E)"
    "''getbalance'' \<in> set (PURE_METHODS ?E)"
    by (simp_all add: exampleNode_def)
  have policy: "getShouldRetry ?E ''getbalance'' ''transaction already in block chain''"
    by (simp add: exampleNode_def retryAlways_def)
  from C2_executed_not_retried_unless_pure
      [OF failed [of "''sendrawtransaction''" "[JString ''0100'']"] executed,
       where attemptN = 1]
    C2_executed_not_retried_unless_pure
      [OF failed [of "''getbalance''" "[]"] executed, where attemptN = 1]
    failed executed purity policy
  show ?thesis
    by (simp add: getErrrorData_def MAX_ATTEMPTS_def DELAY_BETWEEN_ATTEMPTS_def
          exampleClient_def numeral_2_eq_2)
qed

text \<open>
  The claim as stated is false for a pure method: the first request of this balance
  query fails with an error the classifier answers \<^verbatim>\<open>true\<close> for, and the run goes on
  with a delay and a second request, which succeeds.
\<close>

theorem C2_pure_method_retried_counterexample:
  "''getbalance''
     \<in> set (PURE_METHODS
          (exampleNode [Inl ''transaction already in block chain'', Inr ''0.5''] retryAlways))
   \<and> jsonRpcCmd (exampleNode [Inl ''transaction already in block chain'', Inr ''0.5''] retryAlways)
       [] (url exampleClient) ''getbalance'' [] = Inl ''transaction already in block chain''
   \<and> getWasExecutedFromError
       (exampleNode [Inl ''transaction already in block chain'', Inr ''0.5''] retryAlways)
       ''getbalance'' ''transaction already in block chain'' = Some True
   \<and> cmdWithRetry
       (exampleNode [Inl ''transaction already in block chain'', Inr ''0.5''] retryAlways)
       exampleClient ''getbalance'' [] [] =
       Some (Inr ''0.5'',
             [Request ''http://127.0.0.1:9902'' ''getbalance'' [], Delay 5000,
              Request ''http://127.0.0.1:9902'' ''getbalance'' []])"
proof -
  let ?E = "exampleNode [Inl ''transaction already in block chain'', Inr ''0.5''] retryAlways"
  have isPure: "''getbalance'' \<in> set (PURE_METHODS ?E)"
    by (simp add: exampleNode_def)
  have failed: "jsonRpcCmd ?E [] (url exampleClient) ''getbalance'' []
      = Inl ''transaction already in block chain''"
    by (simp add: exampleNode_def scripted_def transportAttempts_def)
  have executed: "getWasExecutedFromError ?E ''getbalance''
      ''transaction already in block chain'' = Some True"
    by (simp add: exampleNode_def exampleClassifier_def)
  have policy: "getShouldRetry ?E ''getbalance'' ''transaction already in block chain''"
    by (simp add: exampleNode_def retryAlways_def)
  have answered: "jsonRpcCmd ?E
      ([] @ [Request (url exampleClient) ''getbalance'' [], Delay DELAY_BETWEEN_ATTEMPTS])
      (url exampleClient) ''getbalance'' [] = Inr ''0.5''"
    by (simp add: exampleNode_def scripted_def transportAttempts_def)
  have first: "attempt ?E exampleClient ''getbalance'' [] True MAX_ATTEMPTS 1 [] =
      attempt ?E exampleClient ''getbalance'' [] True MAX_ATTEMPTS (1 + 1)
        ([] @ [Request (url exampleClient) ''getbalance'' [], Delay DELAY_BETWEEN_ATTEMPTS])"
    by (rule attempt_retry [OF failed]) (simp_all add: MAX_ATTEMPTS_def policy)
  have "cmdWithRetry ?E exampleClient ''getbalance'' [] [] =
       Some (Inr ''0.5'',
             [Request ''http://127.0.0.1:9902'' ''getbalance'' [], Delay 5000,
              Request ''http://127.0.0.1:9902'' ''getbalance'' []])"
    unfolding cmdWithRetry_def Let_def
    using isPure first attempt_success [OF answered, of True MAX_ATTEMPTS "1 + 1"]
    by (simp add: DELAY_BETWEEN_ATTEMPTS_def exampleClient_def)
  with isPure failed executed show ?thesis by simp
qed

text \<open>
  C3. For a method that is not pure, an attempt that fails with an error the classifier
  answers neither \<^verbatim>\<open>true\<close> nor \<^verbatim>\<open>false\<close> for ends the run: whatever the attempt
  number and whatever \<^verbatim>\<open>getShouldRetry\<close> says of the error, the rest of the run is
  this one request and a \<^verbatim>\<open>PeercoinRPCError\<close>, with no delay and no further request.
  In particular \<^verbatim>\<open>cmdWithRetry\<close> fails after one request when its first attempt fails
  so.
\<close>

theorem C3_unknown_never_retried:
  assumes "method \<notin> set (PURE_METHODS E)"
    and "jsonRpcCmd E s (url self) method params = Inl error"
    and "getWasExecutedFromError E method error = None"
  shows "attempt E self method params (method \<in> set (PURE_METHODS E)) MAX_ATTEMPTS attemptN s =
           Some (Inl (PeercoinRPCError error None
                   (getErrrorData method params False MAX_ATTEMPTS attemptN)),
                 s @ [Request (url self) method params])
       \<and> cmdWithRetry E self method params s =
           Some (Inl (PeercoinRPCError error None
                   (getErrrorData method params False MAX_ATTEMPTS 1)),
                 s @ [Request (url self) method params])"
proof -
  have stop: "n = MAX_ATTEMPTS \<or>
     \<not> ((method \<in> set (PURE_METHODS E) \<or> getWasExecutedFromError E method error = Some False)
        \<and> getShouldRetry E method error)" for n
    using assms(1, 3) by simp
  from attempt_throw [OF assms(2) stop] show ?thesis
    using assms(1, 3) by (simp add: cmdWithRetry_def)
qed

theorem C3_unknown_never_retried_witness:
  "''sendrawtransaction'' \<notin> set (PURE_METHODS (exampleNode [Inl ''socket hang up''] retryAlways))
   \<and> getShouldRetry (exampleNode [Inl ''socket hang up''] retryAlways)
       ''sendrawtransaction'' ''socket hang up''
   \<and> cmdWithRetry (exampleNode [Inl ''socket hang up''] retryAlways) exampleClient
       ''sendrawtransaction'' [JString ''0100''] [] =
       Some (Inl (PeercoinRPCError ''socket hang up'' None
               \<lparr>err_method = ''sendrawtransaction'', err_params = [JString ''0100''],
                err_methodIsPure = False, err_maxAttempts = 5, err_attempts = 1\<rparr>),
             [Request ''http://127.0.0.1:9902'' ''sendrawtransaction'' [JString ''0100'']])"
proof -
  let ?E = "exampleNode [Inl ''socket hang up''] retryAlways"
  have impure: "''sendrawtransaction'' \<notin> set (PURE_METHODS ?E)"
    by (simp add: exampleNode_def)
  have failed: "jsonRpcCmd ?E [] (url exampleClient) ''sendrawtransaction'' [JString ''0100'']
      = Inl ''socket hang up''"
    by (simp add: exampleNode_def scripted_def transportAttempts_def)
  have unknown: "getWasExecutedFromError ?E ''sendrawtransaction'' ''socket hang up'' = None"
    by (simp add: exampleNode_def exampleClassifier_def)
  from C3_unknown_never_retried [OF impure failed unknown, of 1] impure show ?thesis
    by (simp add: exampleNode_def retryAlways_def getErrrorData_def MAX_ATTEMPTS_def
          exampleClient_def)
qed

section \<open>Decoding\<close>

text \<open>
  C6. When the run of \<^verbatim>\<open>cmdWithRetry\<close> ends with a result of the transport and
  \<^verbatim>\<open>iotsDecode\<close> rejects that result, \<^verbatim>\<open>cmdWithRetryAndDecode\<close> throws the decoder's
  error with \<^verbatim>\<open>executed\<close> set to \<^verbatim>\<open>true\<close>, and its effects are those of the run: the
  last one is the request that succeeded, and neither a request nor a delay follows it.
\<close>

theorem C6_decode_failure_not_retried:
  assumes "cmdWithRetry E self method params s = Some (Inr result, s1)"
    and "iotsDecode E decoder result = Inl error"
  shows "cmdWithRetryAndDecode E self decoder method params s =
           Some (Inl (DecodingError error True), s1)
       \<and> (\<exists>h. s1 = h @ [Request (url self) method params]
             \<and> jsonRpcCmd E h (url self) method params = Inr result)"
proof -
  have thrown: "cmdWithRetryAndDecode E self decoder method params s =
      Some (Inl (DecodingError error True), s1)"
    using assms by (simp add: cmdWithRetryAndDecode_def)
  obtain res k where run:
    "cmdWithRetry E self method params s =
       Some (res, s @ concat (replicate k [Request (url self) method params,
                                          Delay DELAY_BETWEEN_ATTEMPTS])
                    @ [Request (url self) method params])"
    and last: "case res of
              Inr result \<Rightarrow>
                jsonRpcCmd E (s @ concat (replicate k [Request (url self) method params,
                     Delay DELAY_BETWEEN_ATTEMPTS])) (url self) method params = Inr result
            | Inl x \<Rightarrow>
                (\<exists>error. jsonRpcCmd E (s @ concat (replicate k [Request (url self) method params,
                     Delay DELAY_BETWEEN_ATTEMPTS])) (url self) method params = Inl error
                  \<and> x = PeercoinRPCError error (getWasExecutedFromError E method error)
                          (getErrrorData method params (method \<in> set (PURE_METHODS E))
                             MAX_ATTEMPTS (Suc k))
                  \<and> (Suc k = MAX_ATTEMPTS \<or>
                       \<not> ((method \<in> set (PURE_METHODS E)
                            \<or> getWasExecutedFromError E method error = Some False)
                          \<and> getShouldRetry E method error)))"
    using cmdWithRetry_run [of E self "method" "params" s] by blast
  let ?h = "s @ concat (replicate k [Request (url self) method params,
                                     Delay DELAY_BETWEEN_ATTEMPTS])"
  from run assms(1) have "res = Inr result" and "s1 = ?h @ [Request (url self) method params]"
    by simp_all
  with last have "\<exists>h. s1 = h @ [Request (url self) method params]
             \<and> jsonRpcCmd E h (url self) method params = Inr result"
    by auto
  with thrown show ?thesis by simp
qed

theorem C6_decode_failure_not_retried_witness:
  "cmdWithRetry (exampleNode [Inr ''garbage''] retryTransient) exampleClient
       ''sendrawtransaction'' [JString ''0100''] []
     = Some (Inr ''garbage'',
             [Request ''http://127.0.0.1:9902'' ''sendrawtransaction'' [JString ''0100'']])
   \<and> iotsDecode (exampleNode [Inr ''garbage''] retryTransient)
       SendRawTransactionResultDecoder ''garbage'' = Inl ''Invalid value''
   \<and> sendRawTransaction (exampleNode [Inr ''garbage''] retryTransient) exampleClient ''0100'' []
     = Some (Inl (DecodingError ''Invalid value'' True),
             [Request ''http://127.0.0.1:9902'' ''sendrawtransaction'' [JString ''0100'']])"
proof -
  let ?E = "exampleNode [Inr ''garbage''] retryTransient"
  have answered: "jsonRpcCmd ?E [] (url exampleClient) ''sendrawtransaction'' [JString ''0100'']
      = Inr ''garbage''"
    by (simp add: exampleNode_def scripted_def transportAttempts_def)
  have run: "cmdWithRetry ?E exampleClient ''sendrawtransaction'' [JString ''0100''] []
     = Some (Inr ''garbage'',
             [Request ''http://127.0.0.1:9902'' ''sendrawtransaction'' [JString ''0100'']])"
    unfolding cmdWithRetry_def Let_def
    by (subst attempt_success [OF answered]) (simp add: exampleClient_def)
  have rejected: "iotsDecode ?E SendRawTransactionResultDecoder ''garbage'' = Inl ''Invalid value''"
    by (simp add: exampleNode_def exampleDecode_def)
  from C6_decode_failure_not_retried [OF run rejected] run rejected show ?thesis
    by (simp add: sendRawTransaction_def)
qed

section \<open>The readiness probe\<close>

text \<open>
  C8. \<^verbatim>\<open>isReady\<close> never throws. The call it awaits (\<^verbatim>\<open>ancientGetInfo\<close> when
  \<^verbatim>\<open>options.ancient === true\<close>, \<^verbatim>\<open>getBlockchainInfo\<close> otherwise) always returns;
  \<^verbatim>\<open>isReady\<close> returns \<^verbatim>\<open>true\<close> when that call returns a value and \<^verbatim>\<open>false\<close> when it
  throws, with the effects of that call and no other.
\<close>

theorem C8_isReady_never_throws:
  "\<exists>r s1. (if ancient (options self) = Some True then ancientGetInfo E self s
            else getBlockchainInfo E self s) = Some (r, s1)
     \<and> isReady E self s = Some (Inr (case r of Inl err \<Rightarrow> False | Inr v \<Rightarrow> True), s1)"
proof -
  have returns: "\<exists>r s1. cmdWithRetryAndDecode E self dec m [] s = Some (r, s1)" for dec m
  proof -
    obtain res s1 where "cmdWithRetry E self m [] s = Some (res, s1)"
      using cmdWithRetry_run [of E self m "[]" s] by blast
    from cmdWithRetryAndDecode_trace [OF this] show ?thesis by blast
  qed
  have "\<exists>r s1. (if ancient (options self) = Some True then ancientGetInfo E self s
            else getBlockchainInfo E self s) = Some (r, s1)"
    using returns [of AncientGetInfoResultDecoder "''getinfo''"]
      returns [of GetBlockchainInfoResultDecoder "''getblockchaininfo''"]
    by (simp add: ancientGetInfo_def getBlockchainInfo_def)
  then obtain r s1 where call: "(if ancient (options self) = Some True
            then ancientGetInfo E self s
            else getBlockchainInfo E self s) = Some (r, s1)"
    by blast
  then have "isReady E self s = Some (Inr (case r of Inl err \<Rightarrow> False | Inr v \<Rightarrow> True), s1)"
    unfolding isReady_def by (simp split: sum.splits)
  with call show ?thesis by blast
qed

section \<open>The parameter list of sendToAddress\<close>

text \<open>
  C10. Called with a comment and with \<^verbatim>\<open>commentTo\<close>, \<^verbatim>\<open>subtractFeeFromAmount\<close> and
  \<^verbatim>\<open>replaceable\<close> undefined, \<^verbatim>\<open>sendToAddress\<close> runs the command \<^verbatim>\<open>sendtoaddress\<close>
  with the parameter list \<open>[address, amount]\<close>: every request it hands to the transport
  carries exactly these two parameters, and the comment is in none of them.
\<close>

theorem C10_sendToAddress_drops_comment:
  "sendToAddress E self address amount (Some comment) None None None s =
     cmdWithRetryAndDecode E self SendToAddressResultDecoder ''sendtoaddress''
       [JString address, JString amount] s
   \<and> (\<exists>res k. sendToAddress E self address amount (Some comment) None None None s =
         Some (res, s @ concat (replicate k
                          [Request (url self) ''sendtoaddress'' [JString address, JString amount],
                           Delay 5000])
                      @ [Request (url self) ''sendtoaddress'' [JString address, JString amount]]))"
proof -
  have same: "sendToAddress E self address amount (Some comment) None None None s =
     cmdWithRetryAndDecode E self SendToAddressResultDecoder ''sendtoaddress''
       [JString address, JString amount] s"
    by (simp add: sendToAddress_def truthy_def)
  obtain res k where run:
    "cmdWithRetry E self ''sendtoaddress'' [JString address, JString amount] s =
       Some (res, s @ concat (replicate k
                          [Request (url self) ''sendtoaddress'' [JString address, JString amount],
                           Delay DELAY_BETWEEN_ATTEMPTS])
                    @ [Request (url self) ''sendtoaddress'' [JString address, JString amount]])"
    using cmdWithRetry_run [of E self "''sendtoaddress''" "[JString address, JString amount]" s]
    by blast
  from cmdWithRetryAndDecode_trace [OF run, of SendToAddressResultDecoder] same
  show ?thesis
    by (auto simp add: DELAY_BETWEEN_ATTEMPTS_def)
qed

section \<open>Retrying up to the bound\<close>

text \<open>
  C4. For a pure method, if each of the \<open>maxAttempts\<close> attempts of a run fails with an
  error for which \<^verbatim>\<open>getShouldRetry\<close> returns \<^verbatim>\<open>true\<close>, then \<^verbatim>\<open>cmdWithRetry\<close> makes
  exactly 5 requests with one delay of 5000 ms between consecutive requests (4 delays),
  and then throws a \<^verbatim>\<open>PeercoinRPCError\<close> that reports 5 attempts out of 5. The
  histories in the hypothesis are those at which the five attempts take place.
\<close>

theorem C4_pure_method_exhausts_attempts:
  assumes "method \<in> set (PURE_METHODS E)"
    and "\<forall>k<MAX_ATTEMPTS. \<exists>error.
           jsonRpcCmd E (s @ concat (replicate k [Request (url self) method params, Delay 5000]))
             (url self) method params = Inl error
           \<and> getShouldRetry E method error"
  shows "\<exists>error. cmdWithRetry E self method params s =
           Some (Inl (PeercoinRPCError error (getWasExecutedFromError E method error)
                   (getErrrorData method params True MAX_ATTEMPTS MAX_ATTEMPTS)),
                 s @ [Request (url self) method params, Delay 5000,
                      Request (url self) method params, Delay 5000,
                      Request (url self) method params, Delay 5000,
                      Request (url self) method params, Delay 5000,
                      Request (url self) method params])
       \<and> transportAttempts [Request (url self) method params, Delay 5000,
                      Request (url self) method params, Delay 5000,
                      Request (url self) method params, Delay 5000,
                      Request (url self) method params, Delay 5000,
                      Request (url self) method params] = MAX_ATTEMPTS
       \<and> delays [Request (url self) method params, Delay 5000,
                      Request (url self) method params, Delay 5000,
                      Request (url self) method params, Delay 5000,
                      Request (url self) method params, Delay 5000,
                      Request (url self) method params] = MAX_ATTEMPTS - 1"
proof -
  obtain res k where run:
    "cmdWithRetry E self method params s =
       Some (res, s @ concat (replicate k [Request (url self) method params,
                                          Delay DELAY_BETWEEN_ATTEMPTS])
                    @ [Request (url self) method params])"
    and bound: "Suc k \<le> MAX_ATTEMPTS"
    and last: "case res of
              Inr result \<Rightarrow>
                jsonRpcCmd E (s @ concat (replicate k [Request (url self) method params,
                     Delay DELAY_BETWEEN_ATTEMPTS])) (url self) method params = Inr result
            | Inl x \<Rightarrow>
                (\<exists>error. jsonRpcCmd E (s @ concat (replicate k [Request (url self) method params,
                     Delay DELAY_BETWEEN_ATTEMPTS])) (url self) method params = Inl error
                  \<and> x = PeercoinRPCError error (getWasExecutedFromError E method error)
                          (getErrrorData method params (method \<in> set (PURE_METHODS E))
                             MAX_ATTEMPTS (Suc k))
                  \<and> (Suc k = MAX_ATTEMPTS \<or>
                       \<not> ((method \<in> set (PURE_METHODS E)
                            \<or> getWasExecutedFromError E method error = Some False)
                          \<and> getShouldRetry E method error)))"
    using cmdWithRetry_run [of E self "method" "params" s] by blast
  from bound have "k < MAX_ATTEMPTS" by simp
  with assms(2) obtain e where
    failed: "jsonRpcCmd E (s @ concat (replicate k [Request (url self) method params,
                Delay DELAY_BETWEEN_ATTEMPTS])) (url self) method params = Inl e"
    and retryable: "getShouldRetry E method e"
    by (auto simp add: DELAY_BETWEEN_ATTEMPTS_def)
  from last failed retryable assms(1) have
    x: "res = Inl (PeercoinRPCError e (getWasExecutedFromError E method e)
                (getErrrorData method params True MAX_ATTEMPTS (Suc k)))"
    and all: "Suc k = MAX_ATTEMPTS"
    by (auto split: sum.splits)
  from all have k: "k = Suc (Suc (Suc (Suc 0)))" by (simp add: MAX_ATTEMPTS_def)
  have "cmdWithRetry E self method params s =
           Some (Inl (PeercoinRPCError e (getWasExecutedFromError E method e)
                   (getErrrorData method params True MAX_ATTEMPTS MAX_ATTEMPTS)),
                 s @ [Request (url self) method params, Delay 5000,
                      Request (url self) method params, Delay 5000,
                      Request (url self) method params, Delay 5000,
                      Request (url self) method params, Delay 5000,
                      Request (url self) method params])"
    using run x all by (simp add: k DELAY_BETWEEN_ATTEMPTS_def)
  then show ?thesis
    by (auto simp add: transportAttempts_def delays_def MAX_ATTEMPTS_def)
qed

theorem C4_pure_method_exhausts_attempts_witness:
  "''getbalance'' \<in> set (PURE_METHODS (exampleNode [] retryTransient))
   \<and> (\<exists>error. cmdWithRetry (exampleNode [] retryTransient) exampleClient ''getbalance'' [] [] =
         Some (Inl (PeercoinRPCError error
                 (getWasExecutedFromError (exampleNode [] retryTransient) ''getbalance'' error)
                 \<lparr>err_method = ''getbalance'', err_params = [], err_methodIsPure = True,
                  err_maxAttempts = 5, err_attempts = 5\<rparr>),
               [Request ''http://127.0.0.1:9902'' ''getbalance'' [], Delay 5000,
                Request ''http://127.0.0.1:9902'' ''getbalance'' [], Delay 5000,
                Request ''http://127.0.0.1:9902'' ''getbalance'' [], Delay 5000,
                Request ''http://127.0.0.1:9902'' ''getbalance'' [], Delay 5000,
                Request ''http://127.0.0.1:9902'' ''getbalance'' []]))"
proof -
  let ?E = "exampleNode [] retryTransient"
  have isPure: "''getbalance'' \<in> set (PURE_METHODS ?E)"
    by (simp add: exampleNode_def)
  have refused: "\<forall>k<MAX_ATTEMPTS. \<exists>error.
           jsonRpcCmd ?E ([] @ concat (replicate k
               [Request (url exampleClient) ''getbalance'' [], Delay 5000]))
             (url exampleClient) ''getbalance'' [] = Inl error
           \<and> getShouldRetry ?E ''getbalance'' error"
    by (simp add: exampleNode_def scripted_def retryTransient_def)
  from C4_pure_method_exhausts_attempts [OF isPure refused] isPure show ?thesis
    by (simp add: getErrrorData_def MAX_ATTEMPTS_def exampleClient_def)
qed

text \<open>
  C5. For a method that is not pure, suppose every attempt of a run that fails does so
  with an error classified \<^verbatim>\<open>false\<close> (not executed) for which \<^verbatim>\<open>getShouldRetry\<close>
  returns \<^verbatim>\<open>true\<close>. Then \<^verbatim>\<open>cmdWithRetry\<close> retries after every failure below the bound:
  the run consists of \<open>k < maxAttempts\<close> requests that failed, each followed by a delay of
  5000 ms, and a last request; it ends with a result only if that last request gave the
  result, and it throws only if the last request was the \<open>maxAttempts\<close>-th and failed.
  In particular, when all \<open>maxAttempts\<close> requests fail, the run is exactly 5 requests
  and 4 delays and throws the error of the fifth request with 5 attempts out of 5. The
  effects of the run are those of the same closure with \<^verbatim>\<open>methodIsPure\<close> true.
\<close>

theorem C5_not_executed_retried_to_bound:
  assumes "method \<notin> set (PURE_METHODS E)"
    and "\<forall>k<MAX_ATTEMPTS. \<forall>error.
           jsonRpcCmd E (s @ concat (replicate k [Request (url self) method params, Delay 5000]))
             (url self) method params = Inl error \<longrightarrow>
           getWasExecutedFromError E method error = Some False \<and> getShouldRetry E method error"
  shows "(\<exists>res k. cmdWithRetry E self method params s =
            Some (res, s @ concat (replicate k [Request (url self) method params, Delay 5000])
                         @ [Request (url self) method params])
          \<and> k < MAX_ATTEMPTS
          \<and> (\<forall>j<k. \<exists>error.
                jsonRpcCmd E (s @ concat (replicate j [Request (url self) method params,
                     Delay 5000])) (url self) method params = Inl error)
          \<and> (\<forall>result. res = Inr result \<longrightarrow>
                jsonRpcCmd E (s @ concat (replicate k [Request (url self) method params,
                     Delay 5000])) (url self) method params = Inr result)
          \<and> (\<forall>x. res = Inl x \<longrightarrow>
                Suc k = MAX_ATTEMPTS
                \<and> (\<exists>error. jsonRpcCmd E (s @ concat (replicate k
                       [Request (url self) method params, Delay 5000]))
                       (url self) method params = Inl error
                     \<and> x = PeercoinRPCError error (Some False)
                           (getErrrorData method params False MAX_ATTEMPTS MAX_ATTEMPTS))))
       \<and> ((\<forall>k<MAX_ATTEMPTS. \<exists>error.
              jsonRpcCmd E (s @ concat (replicate k [Request (url self) method params,
                   Delay 5000])) (url self) method params = Inl error) \<longrightarrow>
           (\<exists>error. jsonRpcCmd E (s @ [Request (url self) method params, Delay 5000,
                                       Request (url self) method params, Delay 5000,
                                       Request (url self) method params, Delay 5000,
                                       Request (url self) method params, Delay 5000])
                        (url self) method params = Inl error
              \<and> cmdWithRetry E self method params s =
                  Some (Inl (PeercoinRPCError error (Some False)
                          (getErrrorData method params False MAX_ATTEMPTS MAX_ATTEMPTS)),
                        s @ [Request (url self) method params, Delay 5000,
                             Request (url self) method params, Delay 5000,
                             Request (url self) method params, Delay 5000,
                             Request (url self) method params, Delay 5000,
                             Request (url self) method params])))
       \<and> map_option snd (cmdWithRetry E self method params s) =
           map_option snd (attempt E self method params True MAX_ATTEMPTS 1 s)"
proof -
  let ?P = "[Request (url self) method params, Delay 5000]"
  let ?R = "Request (url self) method params"
  have one: "(1::nat) \<le> MAX_ATTEMPTS" by (simp add: MAX_ATTEMPTS_def)
  from attempt_run_history [OF one, of E self "method" "params" False s]
  obtain res k where run: "cmdWithRetry E self method params s =
        Some (res, s @ concat (replicate k ?P) @ [?R])"
    and bound: "k < MAX_ATTEMPTS"
    and earlier: "\<forall>j<k. \<exists>error.
        jsonRpcCmd E (s @ concat (replicate j ?P)) (url self) method params = Inl error"
    and success: "\<forall>result. res = Inr result \<longrightarrow>
        jsonRpcCmd E (s @ concat (replicate k ?P)) (url self) method params = Inr result"
    and failure: "\<forall>x. res = Inl x \<longrightarrow>
        (\<exists>error. jsonRpcCmd E (s @ concat (replicate k ?P)) (url self) method params = Inl error
           \<and> x = PeercoinRPCError error (getWasExecutedFromError E method error)
                   (getErrrorData method params False MAX_ATTEMPTS (Suc k))
           \<and> (Suc k = MAX_ATTEMPTS \<or>
                \<not> (getWasExecutedFromError E method error = Some False
                   \<and> getShouldRetry E method error)))"
    using assms(1)
    by (simp add: cmdWithRetry_def DELAY_BETWEEN_ATTEMPTS_def Suc_le_eq) blast
  have failure': "Suc k = MAX_ATTEMPTS
      \<and> (\<exists>error. jsonRpcCmd E (s @ concat (replicate k ?P)) (url self) method params = Inl error
            \<and> x = PeercoinRPCError error (Some False)
                  (getErrrorData method params False MAX_ATTEMPTS MAX_ATTEMPTS))"
    if "res = Inl x" for x
  proof -
    from failure that obtain error where
      failed: "jsonRpcCmd E (s @ concat (replicate k ?P)) (url self) method params = Inl error"
      and x: "x = PeercoinRPCError error (getWasExecutedFromError E method error)
                (getErrrorData method params False MAX_ATTEMPTS (Suc k))"
      and stop: "Suc k = MAX_ATTEMPTS \<or>
                 \<not> (getWasExecutedFromError E method error = Some False
                    \<and> getShouldRetry E method error)"
      by blast
    from assms(2) bound failed have "getWasExecutedFromError E method error = Some False"
      and "getShouldRetry E method error"
      by blast+
    with stop x failed show ?thesis by auto
  qed
  have first: "\<exists>res k. cmdWithRetry E self method params s =
            Some (res, s @ concat (replicate k ?P) @ [?R])
          \<and> k < MAX_ATTEMPTS
          \<and> (\<forall>j<k. \<exists>error.
                jsonRpcCmd E (s @ concat (replicate j ?P)) (url self) method params = Inl error)
          \<and> (\<forall>result. res = Inr result \<longrightarrow>
                jsonRpcCmd E (s @ concat (replicate k ?P)) (url self) method params = Inr result)
          \<and> (\<forall>x. res = Inl x \<longrightarrow>
                Suc k = MAX_ATTEMPTS
                \<and> (\<exists>error. jsonRpcCmd E (s @ concat (replicate k ?P))
                       (url self) method params = Inl error
                     \<and> x = PeercoinRPCError error (Some False)
                           (getErrrorData method params False MAX_ATTEMPTS MAX_ATTEMPTS)))"
    using run bound earlier success failure' by blast
  have second: "\<exists>error. jsonRpcCmd E (s @ [?R, Delay 5000, ?R, Delay 5000, ?R, Delay 5000,
                                          ?R, Delay 5000])
                        (url self) method params = Inl error
              \<and> cmdWithRetry E self method params s =
                  Some (Inl (PeercoinRPCError error (Some False)
                          (getErrrorData method params False MAX_ATTEMPTS MAX_ATTEMPTS)),
                        s @ [?R, Delay 5000, ?R, Delay 5000, ?R, Delay 5000, ?R, Delay 5000, ?R])"
    if allFail: "\<forall>k<MAX_ATTEMPTS. \<exists>error.
              jsonRpcCmd E (s @ concat (replicate k ?P)) (url self) method params = Inl error"
  proof -
    from allFail bound obtain e where
      "jsonRpcCmd E (s @ concat (replicate k ?P)) (url self) method params = Inl e"
      by blast
    with success obtain x where x: "res = Inl x"
      by (cases res) auto
    from failure' [OF x] obtain error where k: "Suc k = MAX_ATTEMPTS"
      and failed: "jsonRpcCmd E (s @ concat (replicate k ?P)) (url self) method params
          = Inl error"
      and thrown: "x = PeercoinRPCError error (Some False)
                  (getErrrorData method params False MAX_ATTEMPTS MAX_ATTEMPTS)"
      by blast
    from k have k4: "k = Suc (Suc (Suc (Suc 0)))" by (simp add: MAX_ATTEMPTS_def)
    from failed run x thrown show ?thesis
      by (simp add: k4)
  qed
  have classified: "\<forall>k error. 1 + k \<le> MAX_ATTEMPTS \<longrightarrow>
           jsonRpcCmd E (s @ concat (replicate k [Request (url self) method params,
                Delay DELAY_BETWEEN_ATTEMPTS])) (url self) method params = Inl error \<longrightarrow>
           getWasExecutedFromError E method error = Some False"
    using assms(2) by (auto simp add: DELAY_BETWEEN_ATTEMPTS_def Suc_le_eq)
  from attempt_purity_irrelevant [OF one classified] assms(1)
  have third: "map_option snd (cmdWithRetry E self method params s) =
           map_option snd (attempt E self method params True MAX_ATTEMPTS 1 s)"
    by (simp add: cmdWithRetry_def)
  from first second third show ?thesis by blast
qed

theorem C5_not_executed_retried_to_bound_witness:
  "''sendrawtransaction'' \<notin> set (PURE_METHODS (exampleNode [] retryTransient))
   \<and> cmdWithRetry (exampleNode [] retryTransient) exampleClient
       ''sendrawtransaction'' [JString ''0100''] [] =
       Some (Inl (PeercoinRPCError ''ECONNREFUSED'' (Some False)
               \<lparr>err_method = ''sendrawtransaction'', err_params = [JString ''0100''],
                err_methodIsPure = False, err_maxAttempts = 5, err_attempts = 5\<rparr>),
             [Request ''http://127.0.0.1:9902'' ''sendrawtransaction'' [JString ''0100''],
              Delay 5000,
              Request ''http://127.0.0.1:9902'' ''sendrawtransaction'' [JString ''0100''],
              Delay 5000,
              Request ''http://127.0.0.1:9902'' ''sendrawtransaction'' [JString ''0100''],
              Delay 5000,
              Request ''http://127.0.0.1:9902'' ''sendrawtransaction'' [JString ''0100''],
              Delay 5000,
              Request ''http://127.0.0.1:9902'' ''sendrawtransaction'' [JString ''0100'']])
   \<and> cmdWithRetry (exampleNode [Inl ''ETIMEDOUT'', Inr ''txid''] retryTransient) exampleClient
       ''sendrawtransaction'' [JString ''0100''] [] =
       Some (Inr ''txid'',
             [Request ''http://127.0.0.1:9902'' ''sendrawtransaction'' [JString ''0100''],
              Delay 5000,
              Request ''http://127.0.0.1:9902'' ''sendrawtransaction'' [JString ''0100'']])"
proof -
  let ?E = "exampleNode [] retryTransient"
  let ?F = "exampleNode [Inl ''ETIMEDOUT'', Inr ''txid''] retryTransient"
  let ?u = "url exampleClient"
  let ?m = "''sendrawtransaction''"
  let ?ps = "[JString ''0100'']"
  let ?P = "[Request ?u ?m ?ps, Delay 5000]"
  have impure: "?m \<notin> set (PURE_METHODS ?E)" "?m \<notin> set (PURE_METHODS ?F)"
    by (simp_all add: exampleNode_def)
  have refused: "jsonRpcCmd ?E h ?u ?m ?ps = Inl ''ECONNREFUSED''" for h
    by (simp add: exampleNode_def scripted_def)
  have classifiedE: "\<forall>k<MAX_ATTEMPTS. \<forall>error.
           jsonRpcCmd ?E ([] @ concat (replicate k ?P)) ?u ?m ?ps = Inl error \<longrightarrow>
           getWasExecutedFromError ?E ?m error = Some False \<and> getShouldRetry ?E ?m error"
    by (auto simp add: exampleNode_def scripted_def retryTransient_def exampleClassifier_def)
  have allFail: "\<forall>k<MAX_ATTEMPTS. \<exists>error.
      jsonRpcCmd ?E ([] @ concat (replicate k ?P)) ?u ?m ?ps = Inl error"
    by (simp add: refused)
  from C5_not_executed_retried_to_bound [OF impure(1) classifiedE] allFail
  have "\<exists>error. jsonRpcCmd ?E ([] @ [Request ?u ?m ?ps, Delay 5000, Request ?u ?m ?ps, Delay 5000,
                                 Request ?u ?m ?ps, Delay 5000, Request ?u ?m ?ps, Delay 5000])
                  ?u ?m ?ps = Inl error
          \<and> cmdWithRetry ?E exampleClient ?m ?ps [] =
              Some (Inl (PeercoinRPCError error (Some False)
                      (getErrrorData ?m ?ps False MAX_ATTEMPTS MAX_ATTEMPTS)),
                    [] @ [Request ?u ?m ?ps, Delay 5000, Request ?u ?m ?ps, Delay 5000,
                          Request ?u ?m ?ps, Delay 5000, Request ?u ?m ?ps, Delay 5000,
                          Request ?u ?m ?ps])"
    by blast
  then have exhausted: "cmdWithRetry ?E exampleClient ?m ?ps [] =
       Some (Inl (PeercoinRPCError ''ECONNREFUSED'' (Some False)
               (getErrrorData ?m ?ps False MAX_ATTEMPTS MAX_ATTEMPTS)),
             [Request ?u ?m ?ps, Delay 5000, Request ?u ?m ?ps, Delay 5000,
              Request ?u ?m ?ps, Delay 5000, Request ?u ?m ?ps, Delay 5000,
              Request ?u ?m ?ps])"
    by (auto simp add: refused)
  have answers: "jsonRpcCmd ?F ([] @ concat (replicate k ?P)) ?u ?m ?ps =
      (if k = 0 then Inl ''ETIMEDOUT'' else if k = 1 then Inr ''txid''
       else Inl ''ECONNREFUSED'')" for k
  proof -
    have "jsonRpcCmd ?F ([] @ concat (replicate k ?P)) ?u ?m ?ps =
        (case drop k [Inl ''ETIMEDOUT'', Inr ''txid''] of
           [] \<Rightarrow> Inl ''ECONNREFUSED'' | a # rest \<Rightarrow> a)"
      by (simp add: exampleNode_def scripted_def transportAttempts_retries)
    then show ?thesis by (cases k; cases "k - 1") simp_all
  qed
  have classifiedF: "\<forall>k<MAX_ATTEMPTS. \<forall>error.
           jsonRpcCmd ?F ([] @ concat (replicate k ?P)) ?u ?m ?ps = Inl error \<longrightarrow>
           getWasExecutedFromError ?F ?m error = Some False \<and> getShouldRetry ?F ?m error"
    unfolding answers
    by (auto simp add: exampleNode_def retryTransient_def exampleClassifier_def)
  from C5_not_executed_retried_to_bound [OF impure(2) classifiedF]
  obtain res k where run: "cmdWithRetry ?F exampleClient ?m ?ps [] =
        Some (res, [] @ concat (replicate k ?P) @ [Request ?u ?m ?ps])"
    and earlier: "\<forall>j<k. \<exists>error.
        jsonRpcCmd ?F ([] @ concat (replicate j ?P)) ?u ?m ?ps = Inl error"
    and success: "\<forall>result. res = Inr result \<longrightarrow>
        jsonRpcCmd ?F ([] @ concat (replicate k ?P)) ?u ?m ?ps = Inr result"
    and failure: "\<forall>x. res = Inl x \<longrightarrow> Suc k = MAX_ATTEMPTS"
    by blast
  have "k < 2"
  proof (rule ccontr)
    assume "\<not> k < 2"
    then have "1 < k" by simp
    with earlier obtain error where
      "jsonRpcCmd ?F ([] @ concat (replicate 1 ?P)) ?u ?m ?ps = Inl error"
      by blast
    then show False unfolding answers by simp
  qed
  moreover have "k \<noteq> 0"
  proof
    assume zero: "k = 0"
    show False
    proof (cases res)
      case (Inl x)
      with failure zero show False by (simp add: MAX_ATTEMPTS_def)
    next
      case (Inr result)
      with success have "jsonRpcCmd ?F ([] @ concat (replicate k ?P)) ?u ?m ?ps = Inr result"
        by blast
      then show False unfolding answers using zero by simp
    qed
  qed
  ultimately have k: "k = 1" by simp
  have "res = Inr ''txid''"
  proof (cases res)
    case (Inl x)
    with failure k show ?thesis by (simp add: MAX_ATTEMPTS_def)
  next
    case (Inr result)
    with success have "jsonRpcCmd ?F ([] @ concat (replicate k ?P)) ?u ?m ?ps = Inr result"
      by blast
    then show ?thesis unfolding answers using k Inr by simp
  qed
  with run k have retried: "cmdWithRetry ?F exampleClient ?m ?ps [] =
       Some (Inr ''txid'', [Request ?u ?m ?ps, Delay 5000, Request ?u ?m ?ps])"
    by simp
  from impure(1) exhausted retried show ?thesis
    by (simp add: getErrrorData_def MAX_ATTEMPTS_def exampleClient_def)
qed

end
